theory Spec2Isabelle
  imports Main "HOL-Library.Word"
begin

unbundle bit_operations_syntax

section \<open>PDU command ids (smpp/pdu/types.go, lines 10-38)\<close>

text \<open>
  \<^verbatim>\<open>ID\<close> is a 32-bit unsigned command id. The constants are those of the
  \<^verbatim>\<open>const ( ... )\<close> block, in the order of the source.
\<close>

type_synonym ID = "32 word"

definition GenericNACKID :: ID where "GenericNACKID = 0x80000000"
definition BindReceiverID :: ID where "BindReceiverID = 0x00000001"
definition BindReceiverRespID :: ID where "BindReceiverRespID = 0x80000001"
definition BindTransmitterID :: ID where "BindTransmitterID = 0x00000002"
definition BindTransmitterRespID :: ID where "BindTransmitterRespID = 0x80000002"
definition QuerySMID :: ID where "QuerySMID = 0x00000003"
definition QuerySMRespID :: ID where "QuerySMRespID = 0x80000003"
definition SubmitSMID :: ID where "SubmitSMID = 0x00000004"
definition SubmitSMRespID :: ID where "SubmitSMRespID = 0x80000004"
definition DeliverSMID :: ID where "DeliverSMID = 0x00000005"
definition DeliverSMRespID :: ID where "DeliverSMRespID = 0x80000005"
definition UnbindID :: ID where "UnbindID = 0x00000006"
definition UnbindRespID :: ID where "UnbindRespID = 0x80000006"
definition ReplaceSMID :: ID where "ReplaceSMID = 0x00000007"
definition ReplaceSMRespID :: ID where "ReplaceSMRespID = 0x80000007"
definition CancelSMID :: ID where "CancelSMID = 0x00000008"
definition CancelSMRespID :: ID where "CancelSMRespID = 0x80000008"
definition BindTransceiverID :: ID where "BindTransceiverID = 0x00000009"
definition BindTransceiverRespID :: ID where "BindTransceiverRespID = 0x80000009"
definition OutbindID :: ID where "OutbindID = 0x0000000B"
definition EnquireLinkID :: ID where "EnquireLinkID = 0x00000015"
definition EnquireLinkRespID :: ID where "EnquireLinkRespID = 0x80000015"
definition SubmitMultiID :: ID where "SubmitMultiID = 0x00000021"
definition SubmitMultiRespID :: ID where "SubmitMultiRespID = 0x80000021"
definition AlertNotificationID :: ID where "AlertNotificationID = 0x00000102"
definition DataSMID :: ID where "DataSMID = 0x00000103"
definition DataSMRespID :: ID where "DataSMRespID = 0x80000103"

section \<open>The PDU data model used by types.go\<close>

text \<open>
  Modelled from the spec: the names of the mandatory fields are constants of package
  \<^verbatim>\<open>pdufield\<close> (type \<^verbatim>\<open>pdufield.Name\<close>), whose declaring file is not among the
  sources. Each constant that types.go refers to is a constructor here, under the
  identifier types.go uses; the spec writes them in their wire spelling
  (\<^verbatim>\<open>SystemID\<close> is \<^verbatim>\<open>system_id\<close>, \<^verbatim>\<open>AddrTON\<close> is \<^verbatim>\<open>addr_ton\<close>,
  \<^verbatim>\<open>MessageID\<close> is \<^verbatim>\<open>message_id\<close>, \<^verbatim>\<open>SourceAddrTON\<close> is \<^verbatim>\<open>source_addr_ton\<close>
  and so on). A \<^verbatim>\<open>pdufield.List\<close> is a Go slice of names: a list.
\<close>

datatype Name =
    SystemID | Password | SystemType | InterfaceVersion | AddrTON | AddrNPI | AddressRange
  | MessageID | SourceAddrTON | SourceAddrNPI | SourceAddr
  | FinalDate | MessageState | ErrorCode
  | ServiceType | DestAddrTON | DestAddrNPI | DestinationAddr | ESMClass | ProtocolID
  | PriorityFlag | ScheduleDeliveryTime | ValidityPeriod | RegisteredDelivery
  | ReplaceIfPresentFlag | DataCoding | SMDefaultMsgID | SMLength | UDHLength
  | GSMUserData | ShortMessage
  | NumberDests | DestinationList | NoUnsuccess | UnsuccessSme

text \<open>
  Modelled from the spec: the PDU header (\<^verbatim>\<open>Header\<close>, declared outside the sources)
  holds the four 32-bit words \<^verbatim>\<open>command_length\<close>, \<^verbatim>\<open>command_id\<close>,
  \<^verbatim>\<open>command_status\<close> and \<^verbatim>\<open>sequence_number\<close>; types.go names two of its fields,
  \<^verbatim>\<open>ID\<close> and \<^verbatim>\<open>Seq\<close>. A Go composite literal gives every field it leaves out
  the zero value, so \<^verbatim>\<open>&Header{ID: x}\<close> has \<^verbatim>\<open>Seq = 0\<close>.
\<close>

record Header =
  Len :: "32 word"
  ID :: ID
  Status :: "32 word"
  Seq :: "32 word"

text \<open>
  The values stored under a field name and under a TLV tag are of interface types
  declared outside the sources; nothing in types.go builds one.
\<close>

typedecl field_body
typedecl tlv_body

text \<open>
  Modelled from the spec: \<^verbatim>\<open>Codec\<close> is the struct every PDU embeds. types.go sets
  its fields \<^verbatim>\<open>h\<close> (header) and \<^verbatim>\<open>l\<close> (the ordered list of mandatory fields); the
  repository's documentation lists two more, the map of field values and the map of
  TLVs ("ordered list of mandatory fields followed by zero or more optional TLVs").
  A field that a composite literal leaves out is nil: the empty list, the empty map.
\<close>

record Codec =
  codec_h :: Header
  codec_l :: "Name list"
  codec_f :: "Name \<rightharpoonup> field_body"
  codec_t :: "16 word \<rightharpoonup> tlv_body"

text \<open>
  Modelled from the spec: the accessors of the \<^verbatim>\<open>Body\<close> interface that the claims
  name. The documentation gives them as plain field reads
  (\<^verbatim>\<open>func (c *Codec) Header() *Header { return c.H }\<close>,
  \<^verbatim>\<open>func (c *Codec) Fields() pdufield.Map { return c.F }\<close>,
  \<^verbatim>\<open>FieldList() pdufield.List { return p.L }\<close>).
\<close>

definition Header :: "Codec \<Rightarrow> Header" where
  "Header pdu = codec_h pdu"

definition FieldList :: "Codec \<Rightarrow> Name list" where
  "FieldList pdu = codec_l pdu"

definition Fields :: "Codec \<Rightarrow> (Name \<rightharpoonup> field_body)" where
  "Fields pdu = codec_f pdu"

definition TLVFields :: "Codec \<Rightarrow> (16 word \<rightharpoonup> tlv_body)" where
  "TLVFields pdu = codec_t pdu"

text \<open>
  Modelled from the spec: \<^verbatim>\<open>init\<close> is a method of \<^verbatim>\<open>Codec\<close> declared outside the
  sources; every public constructor of types.go calls it on the codec it has just
  built. The spec has a PDU body start with no field value and no TLV, and gives the
  allocation of sequence numbers to the session's correlator ("sequence state lives in
  the session instance", no global counter), so \<^verbatim>\<open>init\<close> allocates the two empty maps
  and leaves the header and the field list as the constructor set them.
\<close>

definition init :: "Codec \<Rightarrow> Codec" where
  "init pdu = pdu\<lparr>codec_f := Map.empty, codec_t := Map.empty\<rparr>"

section \<open>The PDU constructors (smpp/pdu/types.go, lines 40-454)\<close>

text \<open>
  Each \<^verbatim>\<open>newX(hdr)\<close> returns a codec with the header it is given and the field list
  of its literal; each \<^verbatim>\<open>NewX()\<close> builds the header, calls \<^verbatim>\<open>newX\<close>, then
  \<^verbatim>\<open>init\<close>, and returns the codec.
\<close>

definition newGenericNACK :: "Header \<Rightarrow> Codec" where
  "newGenericNACK hdr =
     \<lparr>codec_h = hdr, codec_l = [], codec_f = Map.empty, codec_t = Map.empty\<rparr>"

definition NewGenericNACK :: Codec where
  "NewGenericNACK =
     init (newGenericNACK \<lparr>Len = 0, ID = GenericNACKID, Status = 0, Seq = 0\<rparr>)"

definition newBind :: "Header \<Rightarrow> Codec" where
  "newBind hdr =
     \<lparr>codec_h = hdr,
      codec_l = [SystemID, Password, SystemType, InterfaceVersion, AddrTON, AddrNPI,
                 AddressRange],
      codec_f = Map.empty, codec_t = Map.empty\<rparr>"

definition NewBindReceiver :: Codec where
  "NewBindReceiver = init (newBind \<lparr>Len = 0, ID = BindReceiverID, Status = 0, Seq = 0\<rparr>)"

definition NewBindTransceiver :: Codec where
  "NewBindTransceiver =
     init (newBind \<lparr>Len = 0, ID = BindTransceiverID, Status = 0, Seq = 0\<rparr>)"

definition NewBindTransmitter :: Codec where
  "NewBindTransmitter =
     init (newBind \<lparr>Len = 0, ID = BindTransmitterID, Status = 0, Seq = 0\<rparr>)"

definition newBindResp :: "Header \<Rightarrow> Codec" where
  "newBindResp hdr =
     \<lparr>codec_h = hdr, codec_l = [SystemID], codec_f = Map.empty, codec_t = Map.empty\<rparr>"

definition NewBindReceiverResp :: Codec where
  "NewBindReceiverResp =
     init (newBindResp \<lparr>Len = 0, ID = BindReceiverRespID, Status = 0, Seq = 0\<rparr>)"

definition NewBindReceiverRespSeq :: "32 word \<Rightarrow> Codec" where
  "NewBindReceiverRespSeq seq =
     init (newBindResp \<lparr>Len = 0, ID = BindReceiverRespID, Status = 0, Seq = seq\<rparr>)"

definition NewBindTransceiverResp :: Codec where
  "NewBindTransceiverResp =
     init (newBindResp \<lparr>Len = 0, ID = BindTransceiverRespID, Status = 0, Seq = 0\<rparr>)"

definition NewBindTransceiverRespSeq :: "32 word \<Rightarrow> Codec" where
  "NewBindTransceiverRespSeq seq =
     init (newBindResp \<lparr>Len = 0, ID = BindTransceiverRespID, Status = 0, Seq = seq\<rparr>)"

definition NewBindTransmitterResp :: Codec where
  "NewBindTransmitterResp =
     init (newBindResp \<lparr>Len = 0, ID = BindTransmitterRespID, Status = 0, Seq = 0\<rparr>)"

definition NewBindTransmitterRespSeq :: "32 word \<Rightarrow> Codec" where
  "NewBindTransmitterRespSeq seq =
     init (newBindResp \<lparr>Len = 0, ID = BindTransmitterRespID, Status = 0, Seq = seq\<rparr>)"

definition newQuerySM :: "Header \<Rightarrow> Codec" where
  "newQuerySM hdr =
     \<lparr>codec_h = hdr,
      codec_l = [MessageID, SourceAddrTON, SourceAddrNPI, SourceAddr],
      codec_f = Map.empty, codec_t = Map.empty\<rparr>"

definition NewQuerySM :: Codec where
  "NewQuerySM = init (newQuerySM \<lparr>Len = 0, ID = QuerySMID, Status = 0, Seq = 0\<rparr>)"

definition newQuerySMResp :: "Header \<Rightarrow> Codec" where
  "newQuerySMResp hdr =
     \<lparr>codec_h = hdr,
      codec_l = [MessageID, FinalDate, MessageState, ErrorCode],
      codec_f = Map.empty, codec_t = Map.empty\<rparr>"

definition NewQuerySMResp :: Codec where
  "NewQuerySMResp =
     init (newQuerySMResp \<lparr>Len = 0, ID = QuerySMRespID, Status = 0, Seq = 0\<rparr>)"

definition NewQuerySMRespSeq :: "32 word \<Rightarrow> Codec" where
  "NewQuerySMRespSeq seq =
     init (newQuerySMResp \<lparr>Len = 0, ID = QuerySMRespID, Status = 0, Seq = seq\<rparr>)"

definition newSubmitSM :: "Header \<Rightarrow> Codec" where
  "newSubmitSM hdr =
     \<lparr>codec_h = hdr,
      codec_l = [ServiceType, SourceAddrTON, SourceAddrNPI, SourceAddr, DestAddrTON,
                 DestAddrNPI, DestinationAddr, ESMClass, ProtocolID, PriorityFlag,
                 ScheduleDeliveryTime, ValidityPeriod, RegisteredDelivery,
                 ReplaceIfPresentFlag, DataCoding, SMDefaultMsgID, SMLength, UDHLength,
                 GSMUserData, ShortMessage],
      codec_f = Map.empty, codec_t = Map.empty\<rparr>"

definition NewSubmitSM :: Codec where
  "NewSubmitSM = init (newSubmitSM \<lparr>Len = 0, ID = SubmitSMID, Status = 0, Seq = 0\<rparr>)"

definition newSubmitSMResp :: "Header \<Rightarrow> Codec" where
  "newSubmitSMResp hdr =
     \<lparr>codec_h = hdr, codec_l = [MessageID], codec_f = Map.empty, codec_t = Map.empty\<rparr>"

definition NewSubmitSMResp :: Codec where
  "NewSubmitSMResp =
     init (newSubmitSMResp \<lparr>Len = 0, ID = SubmitSMRespID, Status = 0, Seq = 0\<rparr>)"

definition NewSubmitSMRespSeq :: "32 word \<Rightarrow> Codec" where
  "NewSubmitSMRespSeq seq =
     init (newSubmitSMResp \<lparr>Len = 0, ID = SubmitSMRespID, Status = 0, Seq = seq\<rparr>)"

definition newSubmitMulti :: "Header \<Rightarrow> Codec" where
  "newSubmitMulti hdr =
     \<lparr>codec_h = hdr,
      codec_l = [ServiceType, SourceAddrTON, SourceAddrNPI, SourceAddr, NumberDests,
                 DestinationList, ESMClass, ProtocolID, PriorityFlag,
                 ScheduleDeliveryTime, ValidityPeriod, RegisteredDelivery,
                 ReplaceIfPresentFlag, DataCoding, SMDefaultMsgID, SMLength,
                 ShortMessage],
      codec_f = Map.empty, codec_t = Map.empty\<rparr>"

definition NewSubmitMulti :: Codec where
  "NewSubmitMulti =
     init (newSubmitMulti \<lparr>Len = 0, ID = SubmitMultiID, Status = 0, Seq = 0\<rparr>)"

definition newSubmitMultiResp :: "Header \<Rightarrow> Codec" where
  "newSubmitMultiResp hdr =
     \<lparr>codec_h = hdr, codec_l = [MessageID, NoUnsuccess, UnsuccessSme],
      codec_f = Map.empty, codec_t = Map.empty\<rparr>"

definition NewSubmitMultiResp :: Codec where
  "NewSubmitMultiResp =
     init (newSubmitMultiResp \<lparr>Len = 0, ID = SubmitMultiRespID, Status = 0, Seq = 0\<rparr>)"

definition NewSubmitMultiRespSeq :: "32 word \<Rightarrow> Codec" where
  "NewSubmitMultiRespSeq seq =
     init (newSubmitMultiResp \<lparr>Len = 0, ID = SubmitMultiRespID, Status = 0, Seq = seq\<rparr>)"

definition newDeliverSM :: "Header \<Rightarrow> Codec" where
  "newDeliverSM hdr =
     \<lparr>codec_h = hdr,
      codec_l = [ServiceType, SourceAddrTON, SourceAddrNPI, SourceAddr, DestAddrTON,
                 DestAddrNPI, DestinationAddr, ESMClass, ProtocolID, PriorityFlag,
                 ScheduleDeliveryTime, ValidityPeriod, RegisteredDelivery,
                 ReplaceIfPresentFlag, DataCoding, SMDefaultMsgID, SMLength, UDHLength,
                 GSMUserData, ShortMessage],
      codec_f = Map.empty, codec_t = Map.empty\<rparr>"

definition NewDeliverSM :: Codec where
  "NewDeliverSM = init (newDeliverSM \<lparr>Len = 0, ID = DeliverSMID, Status = 0, Seq = 0\<rparr>)"

definition newDeliverSMResp :: "Header \<Rightarrow> Codec" where
  "newDeliverSMResp hdr =
     \<lparr>codec_h = hdr, codec_l = [MessageID], codec_f = Map.empty, codec_t = Map.empty\<rparr>"

definition NewDeliverSMResp :: Codec where
  "NewDeliverSMResp =
     init (newDeliverSMResp \<lparr>Len = 0, ID = DeliverSMRespID, Status = 0, Seq = 0\<rparr>)"

definition NewDeliverSMRespSeq :: "32 word \<Rightarrow> Codec" where
  "NewDeliverSMRespSeq seq =
     init (newDeliverSMResp \<lparr>Len = 0, ID = DeliverSMRespID, Status = 0, Seq = seq\<rparr>)"

definition newUnbind :: "Header \<Rightarrow> Codec" where
  "newUnbind hdr =
     \<lparr>codec_h = hdr, codec_l = [], codec_f = Map.empty, codec_t = Map.empty\<rparr>"

definition NewUnbind :: Codec where
  "NewUnbind = init (newUnbind \<lparr>Len = 0, ID = UnbindID, Status = 0, Seq = 0\<rparr>)"

definition newUnbindResp :: "Header \<Rightarrow> Codec" where
  "newUnbindResp hdr =
     \<lparr>codec_h = hdr, codec_l = [], codec_f = Map.empty, codec_t = Map.empty\<rparr>"

definition NewUnbindResp :: Codec where
  "NewUnbindResp =
     init (newUnbindResp \<lparr>Len = 0, ID = UnbindRespID, Status = 0, Seq = 0\<rparr>)"

definition NewUnbindRespSeq :: "32 word \<Rightarrow> Codec" where
  "NewUnbindRespSeq seq =
     init (newUnbindResp \<lparr>Len = 0, ID = UnbindRespID, Status = 0, Seq = seq\<rparr>)"

definition newEnquireLink :: "Header \<Rightarrow> Codec" where
  "newEnquireLink hdr =
     \<lparr>codec_h = hdr, codec_l = [], codec_f = Map.empty, codec_t = Map.empty\<rparr>"

definition NewEnquireLink :: Codec where
  "NewEnquireLink =
     init (newEnquireLink \<lparr>Len = 0, ID = EnquireLinkID, Status = 0, Seq = 0\<rparr>)"

definition newEnquireLinkResp :: "Header \<Rightarrow> Codec" where
  "newEnquireLinkResp hdr =
     \<lparr>codec_h = hdr, codec_l = [], codec_f = Map.empty, codec_t = Map.empty\<rparr>"

definition NewEnquireLinkResp :: Codec where
  "NewEnquireLinkResp =
     init (newEnquireLinkResp \<lparr>Len = 0, ID = EnquireLinkRespID, Status = 0, Seq = 0\<rparr>)"

definition NewEnquireLinkRespSeq :: "32 word \<Rightarrow> Codec" where
  "NewEnquireLinkRespSeq seq =
     init (newEnquireLinkResp \<lparr>Len = 0, ID = EnquireLinkRespID, Status = 0, Seq = seq\<rparr>)"

section \<open>The libraries behind the text codec\<close>

text \<open>
  iso88591.go imports \<^verbatim>\<open>golang.org/x/text/encoding/charmap\<close> and
  \<^verbatim>\<open>golang.org/x/text/transform\<close> (go.mod: golang.org/x/text v0.10.0), which read
  UTF-8 with Go's \<^verbatim>\<open>unicode/utf8\<close>. These are libraries, not code of the repository;
  the definitions of this section follow the libraries' own sources, under the names
  they have there. A \<^verbatim>\<open>byte\<close> is an 8-bit word. A \<^verbatim>\<open>rune\<close> is Go's \<^verbatim>\<open>int32\<close>;
  every rune that occurs below lies in \<open>0 .. 0x10FFFF\<close>, where the signed and the
  unsigned order agree, so runes are 32-bit words in the unsigned order.
\<close>

type_synonym byte = "8 word"
type_synonym rune = "32 word"

subsection \<open>unicode/utf8\<close>

definition RuneError :: rune where "RuneError = 0xFFFD"
definition RuneSelf :: rune where "RuneSelf = 0x80"
definition MaxRune :: rune where "MaxRune = 0x10FFFF"

definition maskx :: byte where "maskx = 0x3F"
definition mask2 :: byte where "mask2 = 0x1F"
definition mask3 :: byte where "mask3 = 0x0F"
definition mask4 :: byte where "mask4 = 0x07"
definition locb :: byte where "locb = 0x80"
definition hicb :: byte where "hicb = 0xBF"
definition t2 :: byte where "t2 = 0xC0"
definition t3 :: byte where "t3 = 0xE0"
definition t4 :: byte where "t4 = 0xF0"
definition tx :: byte where "tx = 0x80"

text \<open>
  The codes of the table \<^verbatim>\<open>first\<close>: \<^verbatim>\<open>xx\<close> marks an invalid lead byte, \<^verbatim>\<open>as\<close> an
  ASCII byte; in the other codes the low three bits are the length of the sequence and
  the high four bits index \<^verbatim>\<open>acceptRanges\<close>, the range allowed for the second byte.
\<close>

definition xx :: byte where "xx = 0xF1"
definition as :: byte where "as = 0xF0"
definition s1 :: byte where "s1 = 0x02"
definition s2 :: byte where "s2 = 0x13"
definition s3 :: byte where "s3 = 0x03"
definition s4 :: byte where "s4 = 0x23"
definition s5 :: byte where "s5 = 0x34"
definition s6 :: byte where "s6 = 0x04"
definition s7 :: byte where "s7 = 0x44"

text \<open>The 256-entry table \<^verbatim>\<open>first\<close>, written by the ranges of its rows.\<close>

definition first :: "byte \<Rightarrow> byte" where
  "first b =
     (if b < 0x80 then as
      else if b < 0xC2 then xx
      else if b < 0xE0 then s1
      else if b = 0xE0 then s2
      else if b < 0xED then s3
      else if b = 0xED then s4
      else if b < 0xF0 then s3
      else if b = 0xF0 then s5
      else if b < 0xF4 then s6
      else if b = 0xF4 then s7
      else xx)"

text \<open>
  \<^verbatim>\<open>acceptRanges\<close> is an array of 16 pairs of which the first five are set; the others
  are the zero pair.
\<close>

definition acceptRanges :: "byte \<Rightarrow> byte \<times> byte" where
  "acceptRanges i =
     (if i = 0 then (locb, hicb)
      else if i = 1 then (0xA0, hicb)
      else if i = 2 then (locb, 0x9F)
      else if i = 3 then (0x90, hicb)
      else if i = 4 then (locb, 0x8F)
      else (0, 0))"

text \<open>
  \<^verbatim>\<open>utf8.DecodeRune(p)\<close>: the first rune of \<open>p\<close> and the number of bytes it takes;
  \<open>(RuneError, 1)\<close> on a malformed sequence, \<open>(RuneError, 0)\<close> on the empty slice.
  Every index read is guarded by the length test before it, as in the source. The
  branch for \<open>x \<ge> as\<close> keeps the source's mask: the sign-extended low bit of \<open>x\<close>.
\<close>

definition DecodeRune :: "byte list \<Rightarrow> rune \<times> nat" where
  "DecodeRune p =
     (let n = length p in
      if n < 1 then (RuneError, 0)
      else
        let p0 = p ! 0; x = first p0 in
        if x \<ge> as then
          (let mask = signed_drop_bit 31 (push_bit 31 (ucast x :: rune))
           in ((ucast p0 AND NOT mask) OR (RuneError AND mask), 1))
        else
          let sz = unat (x AND 7); accept = acceptRanges (drop_bit 4 x) in
          if n < sz then (RuneError, 1)
          else
            let b1 = p ! 1 in
            if b1 < fst accept \<or> snd accept < b1 then (RuneError, 1)
            else if sz \<le> 2 then
              (push_bit 6 (ucast (p0 AND mask2)) OR ucast (b1 AND maskx), 2)
            else
              let b2 = p ! 2 in
              if b2 < locb \<or> hicb < b2 then (RuneError, 1)
              else if sz \<le> 3 then
                (push_bit 12 (ucast (p0 AND mask3)) OR push_bit 6 (ucast (b1 AND maskx))
                   OR ucast (b2 AND maskx), 3)
              else
                let b3 = p ! 3 in
                if b3 < locb \<or> hicb < b3 then (RuneError, 1)
                else
                  (push_bit 18 (ucast (p0 AND mask4))
                     OR push_bit 12 (ucast (b1 AND maskx))
                     OR push_bit 6 (ucast (b2 AND maskx)) OR ucast (b3 AND maskx), 4))"

text \<open>
  \<^verbatim>\<open>utf8.EncodeRune\<close>, returning the bytes it writes: the UTF-8 encoding of a code
  point, with \<^verbatim>\<open>RuneError\<close> in place of a surrogate or of a value past
  \<^verbatim>\<open>MaxRune\<close>.
\<close>

definition EncodeRune :: "rune \<Rightarrow> byte list" where
  "EncodeRune r =
     (if r \<le> 0x7F then [ucast r]
      else if r \<le> 0x7FF then [t2 OR ucast (drop_bit 6 r), tx OR (ucast r AND maskx)]
      else
        let r' = (if r > MaxRune \<or> (0xD800 \<le> r \<and> r \<le> 0xDFFF) then RuneError else r) in
        if r > MaxRune \<or> (0xD800 \<le> r \<and> r \<le> 0xDFFF) \<or> r \<le> 0xFFFF then
          [t3 OR ucast (drop_bit 12 r'), tx OR (ucast (drop_bit 6 r') AND maskx),
           tx OR (ucast r' AND maskx)]
        else
          [t4 OR ucast (drop_bit 18 r), tx OR (ucast (drop_bit 12 r) AND maskx),
           tx OR (ucast (drop_bit 6 r) AND maskx), tx OR (ucast r AND maskx)])"

text \<open>The UTF-8 bytes of a text given by its code points.\<close>

definition utf8_bytes :: "rune list \<Rightarrow> byte list" where
  "utf8_bytes rs = concat (map EncodeRune rs)"

subsection \<open>golang.org/x/text: transform and charmap\<close>

text \<open>
  The errors a \<^verbatim>\<open>Transformer\<close> reports. \<^verbatim>\<open>RepertoireError\<close> carries the replacement
  byte of the character map (0x1A for ISO 8859-1).
\<close>

datatype error = ErrShortDst | ErrShortSrc | RepertoireError byte

text \<open>
  \<^verbatim>\<open>transform.Bytes(t, b)\<close> returns \<open>(result, n, err)\<close>. It calls
  \<^verbatim>\<open>t.Transform(dst, src, atEOF)\<close> with \<open>atEOF\<close> set and a destination that it
  grows whenever \<^verbatim>\<open>Transform\<close> reports \<^verbatim>\<open>ErrShortDst\<close>, and continues from the
  bytes already consumed; the two transformers below keep no state between calls. A
  \<^verbatim>\<open>Transformer\<close> is therefore modelled by what \<^verbatim>\<open>transform.Bytes\<close> makes of it:
  the function from the whole source to the bytes written, the number of source bytes
  consumed and the error, for a destination that is never short.
\<close>

type_synonym Transformer = "byte list \<Rightarrow> byte list \<times> nat \<times> error option"

definition transform_Bytes ::
  "Transformer \<Rightarrow> byte list \<Rightarrow> byte list \<times> nat \<times> error option" where
  "transform_Bytes t b = t b"

text \<open>
  The tables of \<^verbatim>\<open>charmap.ISO8859_1\<close>. Entry \<open>i\<close> of \<^verbatim>\<open>encode\<close> packs the byte
  \<open>i\<close> into the high 8 bits and its rune U+00\<open>i\<close> into the low 24 bits (the entries
  are sorted by rune). Entry \<open>c\<close> of \<^verbatim>\<open>decode\<close> is the length and the three data bytes
  of the UTF-8 encoding of U+00\<open>c\<close>.
\<close>

definition iso8859_1_encode :: "nat \<Rightarrow> 32 word" where
  "iso8859_1_encode i = push_bit 24 (of_nat i) OR of_nat i"

definition iso8859_1_decode :: "byte \<Rightarrow> nat \<times> byte list" where
  "iso8859_1_decode c =
     (if c < 0x80 then (1, [c, 0, 0])
      else if c < 0xC0 then (2, [0xC2, c, 0])
      else (2, [0xC3, c - 0x40, 0]))"

text \<open>
  The inner loop of \<^verbatim>\<open>charmapEncoder.Transform\<close>: binary search in \<open>[low, high)\<close>
  for the rune \<open>r\<close> in the \<^verbatim>\<open>encode\<close> table; \<open>None\<close> where the source breaks out
  with a \<^verbatim>\<open>RepertoireError\<close>.
\<close>

function binary_search :: "nat \<Rightarrow> nat \<Rightarrow> rune \<Rightarrow> byte option" where
  "binary_search low high r =
     (if low \<ge> high then None
      else
        let mid = (low + high) div 2;
            got = iso8859_1_encode mid;
            gotRune = got AND (push_bit 24 1 - 1)
        in if gotRune < r then binary_search (mid + 1) high r
           else if gotRune > r then binary_search low mid r
           else Some (ucast (drop_bit 24 got)))"
  by pat_completeness auto
termination
  by (relation "measure (\<lambda>(low, high, r). high - low)") auto

text \<open>
  \<^verbatim>\<open>charmapEncoder.Transform\<close> for ISO 8859-1 (an ASCII superset, \<open>low = 0x80\<close>),
  at the end of the input. A byte below \<^verbatim>\<open>RuneSelf\<close> is copied. Otherwise the next
  rune is decoded; malformed UTF-8 (size 1) and a rune that the table lacks end the
  loop with a \<^verbatim>\<open>RepertoireError\<close>, and the result then holds what was written and
  consumed before.
\<close>

function charmapEncoder_Transform :: "byte list \<Rightarrow> byte list \<times> nat \<times> error option" where
  "charmapEncoder_Transform [] = ([], 0, None)"
| "charmapEncoder_Transform (c # rest) =
     (if ucast c < RuneSelf then
        (case charmapEncoder_Transform rest of
           (dst, nSrc, err) \<Rightarrow> (c # dst, 1 + nSrc, err))
      else
        (case DecodeRune (c # rest) of
           (r, size') \<Rightarrow>
             if size' = 1 then ([], 0, Some (RepertoireError 0x1A))
             else
               (case binary_search 0x80 0x100 r of
                  None \<Rightarrow> ([], 0, Some (RepertoireError 0x1A))
                | Some b \<Rightarrow>
                    (case charmapEncoder_Transform (drop size' (c # rest)) of
                       (dst, nSrc, err) \<Rightarrow> (b # dst, size' + nSrc, err)))))"
  by pat_completeness auto
termination
  by (relation "measure length") (auto simp: DecodeRune_def Let_def split: if_splits)

text \<open>
  \<^verbatim>\<open>charmapDecoder.Transform\<close>: an ASCII byte is copied, any other byte is replaced
  by the data of its \<^verbatim>\<open>decode\<close> entry. It reports no error of its own.
\<close>

fun charmapDecoder_Transform :: "byte list \<Rightarrow> byte list \<times> nat \<times> error option" where
  "charmapDecoder_Transform [] = ([], 0, None)"
| "charmapDecoder_Transform (c # rest) =
     (case charmapDecoder_Transform rest of
        (dst, nSrc, err) \<Rightarrow>
          if c < 0x80 then (c # dst, 1 + nSrc, err)
          else
            (case iso8859_1_decode c of
               (n, data) \<Rightarrow> (take n data @ dst, 1 + nSrc, err)))"

text \<open>
  A \<^verbatim>\<open>*charmap.Charmap\<close> as the codec uses it: the transformers that its methods
  \<^verbatim>\<open>NewEncoder\<close> and \<^verbatim>\<open>NewDecoder\<close> return. \<^verbatim>\<open>ISO8859_1\<close> is the library's
  variable \<^verbatim>\<open>charmap.ISO8859_1\<close>.
\<close>

record Charmap =
  NewEncoder :: Transformer
  NewDecoder :: Transformer

definition ISO8859_1 :: Charmap where
  "ISO8859_1 =
     \<lparr>NewEncoder = charmapEncoder_Transform, NewDecoder = charmapDecoder_Transform\<rparr>"

section \<open>The ISO-8859-1 text codec (smpp/pdu/pdutext/iso88591.go)\<close>

text \<open>
  Modelled from the spec: \<^verbatim>\<open>DataCoding\<close> is the one-octet data coding of a text
  codec, and \<^verbatim>\<open>DefaultType\<close> a constant of that type; both are declared in a file
  of package \<^verbatim>\<open>pdutext\<close> that is not among the sources. The spec gives 0x00 as the
  data coding of the SMSC default alphabet, and the repository's own test of this codec
  (\<^verbatim>\<open>iso88591TypeCode = 0x00\<close>, compared with \<^verbatim>\<open>s.Type()\<close> in
  \<^verbatim>\<open>TestISO88591Encoder\<close> and \<^verbatim>\<open>TestISO88591Decoder\<close>) fixes the same value.
\<close>

type_synonym DataCoding = "8 word"

definition DefaultType :: DataCoding where
  "DefaultType = 0x00"

text \<open>The constant of the test file (iso88591_test.go, lines 13-15).\<close>

definition iso88591TypeCode :: DataCoding where
  "iso88591TypeCode = 0x00"

text \<open>
  \<^verbatim>\<open>type ISO88591 []byte\<close>: the receiver \<open>s\<close> is a byte list.
  \<^verbatim>\<open>func (s ISO88591) Type() DataCoding { return DefaultType }\<close>
\<close>

definition ISO88591_Type :: "byte list \<Rightarrow> DataCoding" where
  "ISO88591_Type s = DefaultType"

text \<open>
  \<^verbatim>\<open>Encode\<close> and \<^verbatim>\<open>Decode\<close> (lines 21-28 and 31-38). Each takes a transformer from
  the library's \<^verbatim>\<open>charmap.ISO8859_1\<close>, which is the first argument here, runs
  \<^verbatim>\<open>transform.Bytes\<close> on the receiver, and returns the receiver itself if an error
  came back, the transformed bytes otherwise.
\<close>

definition ISO88591_Encode :: "Charmap \<Rightarrow> byte list \<Rightarrow> byte list" where
  "ISO88591_Encode charmap_ISO8859_1 s =
     (let e = NewEncoder charmap_ISO8859_1 in
      case transform_Bytes e s of
        (es, _, err) \<Rightarrow> if err \<noteq> None then s else es)"

definition ISO88591_Decode :: "Charmap \<Rightarrow> byte list \<Rightarrow> byte list" where
  "ISO88591_Decode charmap_ISO8859_1 s =
     (let e = NewDecoder charmap_ISO8859_1 in
      case transform_Bytes e s of
        (es, _, err) \<Rightarrow> if err \<noteq> None then s else es)"

section \<open>Properties of the library model\<close>

text \<open>
  The recursive equations of the search and of the encoder are unfolded by hand.
\<close>

declare binary_search.simps [simp del]
declare charmapEncoder_Transform.simps(2) [simp del]

subsection \<open>Checking a fact on every word of a range\<close>

text \<open>
  A fact about a single byte is checked on each value of the range it speaks of: the
  list of the values is evaluated, and a word is the word of its own value.
\<close>

lemma byte_range:
  fixes c :: "'a::len word"
  assumes "list_all (\<lambda>n. P (word_of_nat n :: 'a word)) [lo..<hi]"
    and "lo \<le> unat c" and "unat c < hi"
  shows "P c"
proof -
  have "unat c \<in> set [lo..<hi]" using assms(2,3) by simp
  then have "P (word_of_nat (unat c))"
    using assms(1) unfolding list_all_iff by blast
  then show ?thesis by simp
qed

subsection \<open>The binary search finds exactly the runes U+0080..U+00FF\<close>

lemma encode_table_enum:
  "list_all (\<lambda>i. iso8859_1_encode i AND (push_bit 24 1 - 1) = word_of_nat i
      \<and> (ucast (drop_bit 24 (iso8859_1_encode i)) :: byte) = word_of_nat i) [128..<256]"
  by code_simp

lemma encode_table:
  assumes "128 \<le> i" "i < 256"
  shows "iso8859_1_encode i AND 0xFFFFFF = word_of_nat i"
    and "(ucast (drop_bit 24 (iso8859_1_encode i)) :: byte) = word_of_nat i"
proof -
  have "i \<in> set [128..<256]" unfolding set_upt using assms by simp
  then have "iso8859_1_encode i AND (push_bit 24 1 - 1) = word_of_nat i
      \<and> (ucast (drop_bit 24 (iso8859_1_encode i)) :: byte) = word_of_nat i"
    using encode_table_enum unfolding list_all_iff by blast
  then show "iso8859_1_encode i AND 0xFFFFFF = word_of_nat i"
    and "(ucast (drop_bit 24 (iso8859_1_encode i)) :: byte) = word_of_nat i"
    by simp_all
qed

lemma rune_of_nat_less: "i < 256 \<Longrightarrow> (word_of_nat i :: rune) < r \<longleftrightarrow> i < unat r"
  by (simp add: word_less_nat_alt unat_of_nat)

lemma rune_less_of_nat: "i < 256 \<Longrightarrow> r < (word_of_nat i :: rune) \<longleftrightarrow> unat r < i"
  by (simp add: word_less_nat_alt unat_of_nat)

lemma search_spec:
  "128 \<le> low \<Longrightarrow> high \<le> 256 \<Longrightarrow>
   binary_search low high r =
     (if low \<le> unat r \<and> unat r < high then Some (ucast r) else None)"
proof (induction low high r rule: binary_search.induct)
  case (1 low high r)
  show ?case
  proof (cases "low \<ge> high")
    case True
    then show ?thesis by (subst binary_search.simps) auto
  next
    case False
    define mid where "mid = (low + high) div 2"
    have mid: "low \<le> mid" "mid < high" "128 \<le> mid" "mid < 256"
      using False "1.prems" by (auto simp: mid_def)
    have got: "iso8859_1_encode mid AND 0xFFFFFF = word_of_nat mid"
      and byte: "(ucast (drop_bit 24 (iso8859_1_encode mid)) :: byte) = word_of_nat mid"
      using encode_table [OF mid(3,4)] by simp_all
    consider (lt) "mid < unat r" | (gt) "unat r < mid" | (eq) "unat r = mid"
      by linarith
    then show ?thesis
    proof cases
      case lt
      have "binary_search low high r = binary_search (mid + 1) high r"
        using False lt mid
        by (subst binary_search.simps) (simp add: Let_def mid_def [symmetric] got rune_of_nat_less)
      also have "\<dots> = (if mid + 1 \<le> unat r \<and> unat r < high then Some (ucast r) else None)"
        using "1.IH"(1) [OF False mid_def refl refl] lt mid "1.prems"
        by (simp add: got rune_of_nat_less)
      finally show ?thesis using lt mid by auto
    next
      case gt
      have "binary_search low high r = binary_search low mid r"
        using False gt mid
        by (subst binary_search.simps)
          (simp add: Let_def mid_def [symmetric] got rune_of_nat_less rune_less_of_nat)
      also have "\<dots> = (if low \<le> unat r \<and> unat r < mid then Some (ucast r) else None)"
        using "1.IH"(2) [OF False mid_def refl refl] gt mid "1.prems"
        by (simp add: got rune_of_nat_less rune_less_of_nat)
      finally show ?thesis using gt mid by auto
    next
      case eq
      have "word_of_nat (unat r) = r" by simp
      then have r: "r = word_of_nat mid" using eq by simp
      have "binary_search low high r = Some (ucast (drop_bit 24 (iso8859_1_encode mid)))"
        using False eq mid
        by (subst binary_search.simps)
          (simp add: Let_def mid_def [symmetric] got rune_of_nat_less rune_less_of_nat r)
      also have "\<dots> = Some (ucast r)"
        using mid by (simp add: byte r unsigned_of_nat take_bit_nat_eq_self)
      finally show ?thesis using eq mid by auto
    qed
  qed
qed


subsection \<open>The bytes of the tables\<close>

lemma ascii_enum:
  "list_all (\<lambda>n. let c = (word_of_nat n :: byte) in
      ((ucast c :: rune) < RuneSelf \<longleftrightarrow> c < 0x80)
      \<and> (if c < 0x80 then EncodeRune (ucast c) = [c] else True)) [0..<256]"
  by code_simp

lemma decode_table_enum:
  "list_all (\<lambda>n. let c = (word_of_nat n :: byte) in
      case iso8859_1_decode c of
        (k, [hi, lo, z]) \<Rightarrow>
          k = 2 \<and> z = 0 \<and> first hi = s1 \<and> locb \<le> lo
          \<and> lo \<le> hicb \<and> \<not> (ucast hi :: rune) < RuneSelf
          \<and> push_bit 6 (ucast (hi AND mask2)) OR ucast (lo AND maskx) = (ucast c :: rune)
          \<and> EncodeRune (ucast c) = [hi, lo]
      | _ \<Rightarrow> False) [128..<256]"
  by code_simp

lemma first_enum:
  "list_all (\<lambda>n. let c = (word_of_nat n :: byte) in
      first c = as \<or> first c = xx
      \<or> first c = s1
          \<and> (c = 0xC2 \<or> c = 0xC3 \<or> (0x100 :: rune) \<le> push_bit 6 (ucast (c AND mask2)))
      \<or> first c = s2 \<or> first c = s5
      \<or> (first c = s3 \<or> first c = s4)
          \<and> (0x100 :: rune) \<le> push_bit 12 (ucast (c AND mask3))
      \<or> (first c = s6 \<or> first c = s7)
          \<and> (0x100 :: rune) \<le> push_bit 18 (ucast (c AND mask4))) [0..<256]"
  by code_simp

lemma second_enum:
  "list_all (\<lambda>n. let b = (word_of_nat n :: byte) in
      (if 0xA0 \<le> b then (0x100 :: rune) \<le> push_bit 6 (ucast (b AND maskx)) else True)
      \<and> (if 0x90 \<le> b then (0x100 :: rune) \<le> push_bit 12 (ucast (b AND maskx)) else True)
      \<and> (let r = (push_bit 6 (ucast ((0xC2 :: byte) AND mask2)) OR ucast (b AND maskx) :: rune)
         in iso8859_1_decode (ucast r) = (2, [0xC2, b, 0]))
      \<and> (let r = (push_bit 6 (ucast ((0xC3 :: byte) AND mask2)) OR ucast (b AND maskx) :: rune)
         in iso8859_1_decode (ucast r) = (2, [0xC3, b, 0]))) [128..<192]"
  by code_simp


lemma byte_unat_less: "unat (c :: byte) < 256"
  using unsigned_less [of c, where 'a = nat] by simp

lemma ascii_iff: "(ucast (c :: byte) :: rune) < RuneSelf \<longleftrightarrow> c < 0x80"
  by (rule byte_range [OF ascii_enum, of c, unfolded Let_def, THEN conjunct1])
    (simp_all add: byte_unat_less)

lemma EncodeRune_ascii: "c < 0x80 \<Longrightarrow> EncodeRune (ucast (c :: byte)) = [c]"
  using byte_range [OF ascii_enum, of c, unfolded Let_def, THEN conjunct2]
  by (simp add: byte_unat_less)

lemma decode_table:
  fixes c :: byte
  assumes "\<not> c < 0x80"
  obtains hi lo where "iso8859_1_decode c = (2, [hi, lo, 0])"
    and "first hi = s1" and "locb \<le> lo" and "lo \<le> hicb"
    and "\<not> (ucast hi :: rune) < RuneSelf"
    and "push_bit 6 (ucast (hi AND mask2)) OR ucast (lo AND maskx) = (ucast c :: rune)"
    and "EncodeRune (ucast c) = [hi, lo]"
proof -
  have "128 \<le> unat c" using assms by (simp add: word_less_nat_alt)
  from byte_range [OF decode_table_enum this byte_unat_less]
  show ?thesis
    by (auto simp: Let_def split: prod.splits list.splits intro: that)
qed

lemma DecodeRune_two:
  assumes "first p0 = s1" "locb \<le> b1" "b1 \<le> hicb"
  shows "DecodeRune (p0 # b1 # rest) =
    (push_bit 6 (ucast (p0 AND mask2)) OR ucast (b1 AND maskx), 2)"
  using assms
  by (simp add: DecodeRune_def Let_def s1_def as_def acceptRanges_def not_less)


lemma second_byte:
  fixes b :: byte
  assumes "0x80 \<le> b" "b \<le> 0xBF"
  shows "0xA0 \<le> b \<Longrightarrow> (0x100 :: rune) \<le> push_bit 6 (ucast (b AND maskx))"
    and "0x90 \<le> b \<Longrightarrow> (0x100 :: rune) \<le> push_bit 12 (ucast (b AND maskx))"
    and "iso8859_1_decode
           (ucast (push_bit 6 (ucast ((0xC2 :: byte) AND mask2)) OR ucast (b AND maskx) :: rune))
         = (2, [0xC2, b, 0])"
    and "iso8859_1_decode
           (ucast (push_bit 6 (ucast ((0xC3 :: byte) AND mask2)) OR ucast (b AND maskx) :: rune))
         = (2, [0xC3, b, 0])"
proof -
  have "128 \<le> unat b" "unat b < 192"
    using assms by (simp_all add: word_le_nat_alt)
  from byte_range [OF second_enum this]
  show "0xA0 \<le> b \<Longrightarrow> (0x100 :: rune) \<le> push_bit 6 (ucast (b AND maskx))"
    and "0x90 \<le> b \<Longrightarrow> (0x100 :: rune) \<le> push_bit 12 (ucast (b AND maskx))"
    and "iso8859_1_decode
           (ucast (push_bit 6 (ucast ((0xC2 :: byte) AND mask2)) OR ucast (b AND maskx) :: rune))
         = (2, [0xC2, b, 0])"
    and "iso8859_1_decode
           (ucast (push_bit 6 (ucast ((0xC3 :: byte) AND mask2)) OR ucast (b AND maskx) :: rune))
         = (2, [0xC3, b, 0])"
    by (simp_all add: Let_def split: if_splits)
qed

lemma second_A0:
  fixes b :: byte
  assumes "0xA0 \<le> b" "b \<le> 0xBF"
  shows "(0x100 :: rune) \<le> push_bit 6 (ucast (b AND maskx))"
proof -
  have "0x80 \<le> b" using assms(1) by (simp add: word_le_nat_alt)
  then show ?thesis using second_byte(1) assms by blast
qed

lemma second_90:
  fixes b :: byte
  assumes "0x90 \<le> b" "b \<le> 0xBF"
  shows "(0x100 :: rune) \<le> push_bit 12 (ucast (b AND maskx))"
proof -
  have "0x80 \<le> b" using assms(1) by (simp add: word_le_nat_alt)
  then show ?thesis using second_byte(2) assms by blast
qed

subsection \<open>What \<^verbatim>\<open>DecodeRune\<close> returns below U+0100\<close>

text \<open>
  A sequence of three or four bytes decodes to a rune of at least \<open>0x800\<close>, and a
  two-byte sequence whose lead byte is past \<open>0xC3\<close> to one of at least \<open>0x100\<close>: one
  operand of the disjunction that builds the rune is that large already.
\<close>

lemma or_ge1: "(x :: rune) \<le> a \<Longrightarrow> x \<le> a OR b"
  using le_word_or2 [of a b] by simp

lemma or_ge2: "(x :: rune) \<le> b \<Longrightarrow> x \<le> a OR b"
  using le_word_or2 [of b a] by (simp add: or.commute)

lemma first_cases:
  fixes c :: byte
  shows "first c = as \<or> first c = xx
      \<or> first c = s1
          \<and> (c = 0xC2 \<or> c = 0xC3 \<or> (0x100 :: rune) \<le> push_bit 6 (ucast (c AND mask2)))
      \<or> first c = s2 \<or> first c = s5
      \<or> (first c = s3 \<or> first c = s4)
          \<and> (0x100 :: rune) \<le> push_bit 12 (ucast (c AND mask3))
      \<or> (first c = s6 \<or> first c = s7)
          \<and> (0x100 :: rune) \<le> push_bit 18 (ucast (c AND mask4))"
  using byte_range [OF first_enum, of c] byte_unat_less [of c] by (simp add: Let_def)

lemma DecodeRune_latin1:
  assumes dr: "DecodeRune (c # rest) = (r, sz)" and sz: "sz \<noteq> 1" and r: "r < 0x100"
  shows "\<exists>b1 rest'. rest = b1 # rest' \<and> sz = 2 \<and> (c = 0xC2 \<or> c = 0xC3)
      \<and> locb \<le> b1 \<and> b1 \<le> hicb
      \<and> r = push_bit 6 (ucast (c AND mask2)) OR ucast (b1 AND maskx)"
proof -
  have big: "\<not> (0x100 :: rune) \<le> r" using r by simp
  consider (one) "first c = as \<or> first c = xx"
    | (two) "first c = s1"
        "c = 0xC2 \<or> c = 0xC3 \<or> (0x100 :: rune) \<le> push_bit 6 (ucast (c AND mask2))"
    | (e0) "first c = s2" | (f0) "first c = s5"
    | (three) "first c = s3 \<or> first c = s4"
        "(0x100 :: rune) \<le> push_bit 12 (ucast (c AND mask3))"
    | (four) "first c = s6 \<or> first c = s7"
        "(0x100 :: rune) \<le> push_bit 18 (ucast (c AND mask4))"
    using first_cases [of c] by blast
  then show ?thesis
  proof cases
    case one
    then have "sz = 1"
      using dr by (auto simp: DecodeRune_def Let_def as_def xx_def)
    with sz show ?thesis by simp
  next
    case two
    show ?thesis
    proof (cases rest)
      case Nil
      then have "sz = 1"
        using dr two(1) by (simp add: DecodeRune_def Let_def as_def s1_def)
      with sz show ?thesis by simp
    next
      case (Cons b1 rest')
      have range: "locb \<le> b1 \<and> b1 \<le> hicb"
        using dr two(1) sz Cons
        by (auto simp: DecodeRune_def Let_def as_def s1_def acceptRanges_def not_less
            split: if_splits)
      then have eq: "r = push_bit 6 (ucast (c AND mask2)) OR ucast (b1 AND maskx)" "sz = 2"
        using dr two(1) Cons DecodeRune_two [of c b1 rest'] by simp_all
      have "c = 0xC2 \<or> c = 0xC3"
        using two(2) big eq(1) or_ge1 by blast
      then show ?thesis using Cons range eq by simp
    qed
  next
    case e0
    have "sz = 1 \<or> (0xA0 \<le> rest ! 0 \<and> rest ! 0 \<le> 0xBF
        \<and> (\<exists>x y. r = x OR (push_bit 6 (ucast (rest ! 0 AND maskx)) OR y)))"
      using dr e0
      by (auto simp: DecodeRune_def Let_def as_def s2_def acceptRanges_def not_less
          locb_def hicb_def split: if_splits)
    then show ?thesis
      using sz big second_A0 or_ge1 or_ge2 by blast
  next
    case f0
    have "sz = 1 \<or> (0x90 \<le> rest ! 0 \<and> rest ! 0 \<le> 0xBF
        \<and> (\<exists>x y. r = x OR (push_bit 12 (ucast (rest ! 0 AND maskx)) OR y)))"
      using dr f0
      by (auto simp: DecodeRune_def Let_def as_def s5_def acceptRanges_def not_less
          locb_def hicb_def split: if_splits)
    then show ?thesis
      using sz big second_90 or_ge1 or_ge2 by blast
  next
    case three
    have "sz = 1 \<or> (\<exists>y. r = push_bit 12 (ucast (c AND mask3)) OR y)"
      using dr three(1)
      by (auto simp: DecodeRune_def Let_def as_def s3_def s4_def split: if_splits)
    then show ?thesis
      using sz big three(2) or_ge1 by blast
  next
    case four
    have "sz = 1 \<or> (\<exists>y. r = push_bit 18 (ucast (c AND mask4)) OR y)"
      using dr four(1)
      by (auto simp: DecodeRune_def Let_def as_def s6_def s7_def split: if_splits)
    then show ?thesis
      using sz big four(2) or_ge1 by blast
  qed
qed


subsection \<open>Bytes and runes\<close>

lemma ucast_enum:
  "list_all (\<lambda>n. let c = (word_of_nat n :: byte) in
      (ucast (ucast c :: rune) :: byte) = c \<and> unat (ucast c :: rune) = unat c) [0..<256]"
  by code_simp

lemma rune_enum:
  "list_all (\<lambda>n. let r = (word_of_nat n :: rune) in
      (ucast (ucast r :: byte) :: rune) = r) [0..<256]"
  by code_simp

lemma ucast_byte_rune:
  fixes c :: byte
  shows "(ucast (ucast c :: rune) :: byte) = c" and "unat (ucast c :: rune) = unat c"
  using byte_range [OF ucast_enum, of c] byte_unat_less [of c] by (simp_all add: Let_def)

lemma ucast_rune_byte:
  fixes r :: rune
  assumes "r < 0x100"
  shows "(ucast (ucast r :: byte) :: rune) = r"
proof -
  have "unat r < 256" using assms by (simp add: word_less_nat_alt)
  from byte_range [OF rune_enum _ this] show ?thesis by (simp add: Let_def)
qed

lemma search_latin1:
  "binary_search 0x80 0x100 r = (if 0x80 \<le> r \<and> r < 0x100 then Some (ucast r) else None)"
  using search_spec [of 128 256 r] by (simp add: word_le_nat_alt word_less_nat_alt)

subsection \<open>The decoder, and the encoder on its output\<close>

lemma decoder_result: "snd (charmapDecoder_Transform b) = (length b, None)"
  by (induction b) (auto split: prod.splits)

lemma decoder_ascii:
  "c < 0x80 \<Longrightarrow>
   fst (charmapDecoder_Transform (c # b)) = c # fst (charmapDecoder_Transform b)"
  by (simp split: prod.splits)

lemma decoder_high:
  "\<not> c < 0x80 \<Longrightarrow> iso8859_1_decode c = (2, [hi, lo, 0]) \<Longrightarrow>
   fst (charmapDecoder_Transform (c # b)) = hi # lo # fst (charmapDecoder_Transform b)"
  by (simp split: prod.splits)

declare charmapDecoder_Transform.simps(2) [simp del]

lemma utf8_latin1: "utf8_bytes (map ucast b) = fst (charmapDecoder_Transform b)"
proof (induction b)
  case Nil
  show ?case by (simp add: utf8_bytes_def)
next
  case (Cons c b)
  show ?case
  proof (cases "c < 0x80")
    case True
    then show ?thesis
      using Cons by (simp add: utf8_bytes_def EncodeRune_ascii decoder_ascii)
  next
    case False
    from decode_table [OF False] obtain hi lo
      where "iso8859_1_decode c = (2, [hi, lo, 0])" "EncodeRune (ucast c) = [hi, lo]"
      by blast
    then show ?thesis
      using Cons False by (simp add: utf8_bytes_def decoder_high)
  qed
qed

lemma encoder_decoder:
  "charmapEncoder_Transform (fst (charmapDecoder_Transform b)) =
     (b, length (fst (charmapDecoder_Transform b)), None)"
proof (induction b)
  case Nil
  show ?case by simp
next
  case (Cons c b)
  show ?case
  proof (cases "c < 0x80")
    case True
    then show ?thesis
      using Cons
      by (simp add: decoder_ascii charmapEncoder_Transform.simps(2) ascii_iff)
  next
    case False
    from decode_table [OF False] obtain hi lo
      where tab: "iso8859_1_decode c = (2, [hi, lo, 0])"
        and hi: "first hi = s1" "\<not> (ucast hi :: rune) < RuneSelf"
        and lo: "locb \<le> lo" "lo \<le> hicb"
        and r: "push_bit 6 (ucast (hi AND mask2)) OR ucast (lo AND maskx) = (ucast c :: rune)"
      by blast
    have dr: "DecodeRune (hi # lo # fst (charmapDecoder_Transform b)) = (ucast c, 2)"
      using DecodeRune_two [OF hi(1) lo] r by simp
    have "0x80 \<le> (ucast c :: rune) \<and> (ucast c :: rune) < 0x100"
      using False byte_unat_less [of c]
      by (simp add: word_le_nat_alt word_less_nat_alt ucast_byte_rune(2))
    then have se: "binary_search 0x80 0x100 (ucast c) = Some c"
      by (simp add: search_latin1 ucast_byte_rune(1))
    show ?thesis
      using Cons hi(2) dr se
      by (simp add: decoder_high [OF False tab] charmapEncoder_Transform.simps(2))
  qed
qed

text \<open>
  Where the encoder reports no error, its input is what the decoder makes of its
  output, and it has consumed all of it.
\<close>

lemma encoder_ok:
  "charmapEncoder_Transform s = (d, n, None) \<Longrightarrow>
   fst (charmapDecoder_Transform d) = s \<and> n = length s"
proof (induction s arbitrary: d n rule: charmapEncoder_Transform.induct)
  case 1
  then show ?case by simp
next
  case (2 c rest)
  show ?case
  proof (cases "(ucast c :: rune) < RuneSelf")
    case True
    obtain d' n' e' where rec: "charmapEncoder_Transform rest = (d', n', e')"
      by (cases "charmapEncoder_Transform rest") auto
    with "2.prems" True have res: "d = c # d'" "n = 1 + n'" "e' = None"
      by (simp_all add: charmapEncoder_Transform.simps(2))
    from "2.IH"(1) [OF True] rec res(3)
    have "fst (charmapDecoder_Transform d') = rest \<and> n' = length rest" by simp
    then show ?thesis
      using res True by (simp add: decoder_ascii ascii_iff)
  next
    case False
    obtain r sz where dr: "DecodeRune (c # rest) = (r, sz)"
      by (cases "DecodeRune (c # rest)") auto
    have sz: "sz \<noteq> 1"
      using "2.prems" False dr by (auto simp: charmapEncoder_Transform.simps(2))
    obtain b where se: "binary_search 0x80 0x100 r = Some b"
      using "2.prems" False dr sz
      by (auto simp: charmapEncoder_Transform.simps(2) split: option.splits)
    then have rr: "0x80 \<le> r" "r < 0x100" "b = ucast r"
      by (auto simp: search_latin1 split: if_splits)
    from DecodeRune_latin1 [OF dr sz rr(2)] obtain b1 rest'
      where shape: "rest = b1 # rest'" "sz = 2" "c = 0xC2 \<or> c = 0xC3"
        "locb \<le> b1" "b1 \<le> hicb"
        "r = push_bit 6 (ucast (c AND mask2)) OR ucast (b1 AND maskx)"
      by blast
    have b1: "0x80 \<le> b1" "b1 \<le> 0xBF"
      using shape(4,5) by (simp_all add: locb_def hicb_def)
    have tab: "iso8859_1_decode b = (2, [c, b1, 0])"
      using shape(3,6) rr(3) second_byte(3,4) [OF b1] by auto
    have high: "\<not> b < 0x80"
    proof -
      have "unat (ucast b :: rune) = unat r"
        using rr(2,3) by (simp add: ucast_rune_byte)
      then have "128 \<le> unat b"
        using rr(1) by (simp add: ucast_byte_rune(2) word_le_nat_alt)
      then show ?thesis by (simp add: word_less_nat_alt)
    qed
    obtain d' n' e' where rec: "charmapEncoder_Transform rest' = (d', n', e')"
      by (cases "charmapEncoder_Transform rest'") auto
    with "2.prems" False dr sz se shape(1,2)
    have res: "d = b # d'" "n = 2 + n'" "e' = None"
      by (simp_all add: charmapEncoder_Transform.simps(2))
    from "2.IH"(2) [OF False dr [symmetric] sz se] rec res(3) shape(1,2)
    have "fst (charmapDecoder_Transform d') = rest' \<and> n' = length rest'" by simp
    then show ?thesis
      using res shape(1) by (simp add: decoder_high [OF high tab])
  qed
qed

section \<open>Command ids of requests and responses\<close>

text \<open>
  C2. For each request/response pair of command ids of the \<^verbatim>\<open>const\<close> block
  (BindReceiver, BindTransmitter, QuerySM, SubmitSM, DeliverSM, Unbind, ReplaceSM,
  CancelSM, BindTransceiver, EnquireLink, SubmitMulti, DataSM) the response id is the
  request id with the high bit set, \<open>0x80000000 OR request\<close>; and
  \<^verbatim>\<open>GenericNACKID\<close> is \<open>0x80000000\<close>, so it has the high bit set too.
\<close>

theorem response_id_is_request_id_with_high_bit:
  "BindReceiverRespID = 0x80000000 OR BindReceiverID
   \<and> BindTransmitterRespID = 0x80000000 OR BindTransmitterID
   \<and> QuerySMRespID = 0x80000000 OR QuerySMID
   \<and> SubmitSMRespID = 0x80000000 OR SubmitSMID
   \<and> DeliverSMRespID = 0x80000000 OR DeliverSMID
   \<and> UnbindRespID = 0x80000000 OR UnbindID
   \<and> ReplaceSMRespID = 0x80000000 OR ReplaceSMID
   \<and> CancelSMRespID = 0x80000000 OR CancelSMID
   \<and> BindTransceiverRespID = 0x80000000 OR BindTransceiverID
   \<and> EnquireLinkRespID = 0x80000000 OR EnquireLinkID
   \<and> SubmitMultiRespID = 0x80000000 OR SubmitMultiID
   \<and> DataSMRespID = 0x80000000 OR DataSMID
   \<and> GenericNACKID = 0x80000000
   \<and> bit GenericNACKID 31"
  unfolding GenericNACKID_def BindReceiverID_def BindReceiverRespID_def
    BindTransmitterID_def BindTransmitterRespID_def QuerySMID_def QuerySMRespID_def
    SubmitSMID_def SubmitSMRespID_def DeliverSMID_def DeliverSMRespID_def UnbindID_def
    UnbindRespID_def ReplaceSMID_def ReplaceSMRespID_def CancelSMID_def
    CancelSMRespID_def BindTransceiverID_def BindTransceiverRespID_def
    EnquireLinkID_def EnquireLinkRespID_def SubmitMultiID_def SubmitMultiRespID_def
    DataSMID_def DataSMRespID_def
  by simp

section \<open>Field lists of the constructed PDUs\<close>

text \<open>
  C3. The Bind PDU built for each of the three bind roles (\<^verbatim>\<open>NewBindTransmitter\<close>,
  \<^verbatim>\<open>NewBindReceiver\<close>, \<^verbatim>\<open>NewBindTransceiver\<close>) has exactly the mandatory fields
  system_id, password, system_type, interface_version, addr_ton, addr_npi,
  address_range, in that order: the list that \<^verbatim>\<open>newBind\<close> gives every header, so
  the three roles share it.
\<close>

theorem bind_field_list:
  "FieldList NewBindTransmitter =
     [SystemID, Password, SystemType, InterfaceVersion, AddrTON, AddrNPI, AddressRange]
   \<and> FieldList NewBindReceiver =
     [SystemID, Password, SystemType, InterfaceVersion, AddrTON, AddrNPI, AddressRange]
   \<and> FieldList NewBindTransceiver =
     [SystemID, Password, SystemType, InterfaceVersion, AddrTON, AddrNPI, AddressRange]
   \<and> FieldList (newBind hdr) =
     [SystemID, Password, SystemType, InterfaceVersion, AddrTON, AddrNPI, AddressRange]"
  by (simp add: FieldList_def NewBindTransmitter_def NewBindReceiver_def
      NewBindTransceiver_def newBind_def init_def)

text \<open>
  C5. The body of a QuerySMResp PDU is exactly the mandatory fields message_id,
  final_date, message_state, error_code, in that order (for \<^verbatim>\<open>NewQuerySMResp\<close>, for
  \<^verbatim>\<open>NewQuerySMRespSeq\<close> at every sequence number, and for \<^verbatim>\<open>newQuerySMResp\<close> at
  every header); the body of a QuerySM request is exactly message_id followed by
  source_addr_ton, source_addr_npi, source_addr.
\<close>

theorem query_sm_field_lists:
  "FieldList NewQuerySMResp = [MessageID, FinalDate, MessageState, ErrorCode]
   \<and> FieldList (NewQuerySMRespSeq seq) = [MessageID, FinalDate, MessageState, ErrorCode]
   \<and> FieldList (newQuerySMResp hdr) = [MessageID, FinalDate, MessageState, ErrorCode]
   \<and> FieldList NewQuerySM = [MessageID, SourceAddrTON, SourceAddrNPI, SourceAddr]
   \<and> FieldList (newQuerySM hdr) = [MessageID, SourceAddrTON, SourceAddrNPI, SourceAddr]"
  by (simp add: FieldList_def NewQuerySMResp_def NewQuerySMRespSeq_def newQuerySMResp_def
      NewQuerySM_def newQuerySM_def init_def)

text \<open>
  C6. The body of a SubmitSMResp PDU is exactly one mandatory field, message_id, and
  nothing else: the field list is the one-element list, and the PDU as constructed
  carries no field value and no TLV.
\<close>

theorem submit_sm_resp_field_list:
  "FieldList NewSubmitSMResp = [MessageID]
   \<and> FieldList (NewSubmitSMRespSeq seq) = [MessageID]
   \<and> FieldList (newSubmitSMResp hdr) = [MessageID]
   \<and> length (FieldList (newSubmitSMResp hdr)) = 1
   \<and> Fields (newSubmitSMResp hdr) = Map.empty
   \<and> TLVFields (newSubmitSMResp hdr) = Map.empty
   \<and> Fields (NewSubmitSMRespSeq seq) = Map.empty
   \<and> TLVFields (NewSubmitSMRespSeq seq) = Map.empty"
  by (simp add: FieldList_def Fields_def TLVFields_def NewSubmitSMResp_def
      NewSubmitSMRespSeq_def newSubmitSMResp_def init_def)

text \<open>
  C7. For every sequence number \<open>seq\<close>, \<^verbatim>\<open>NewDeliverSMRespSeq(seq)\<close> returns a
  PDU whose header has command id \<^verbatim>\<open>DeliverSMRespID\<close> and sequence \<open>seq\<close>, and
  \<^verbatim>\<open>NewEnquireLinkRespSeq(seq)\<close> one whose header has command id
  \<^verbatim>\<open>EnquireLinkRespID\<close> and sequence \<open>seq\<close>.
\<close>

theorem resp_seq_header:
  "ID (Header (NewDeliverSMRespSeq seq)) = DeliverSMRespID
   \<and> Seq (Header (NewDeliverSMRespSeq seq)) = seq
   \<and> ID (Header (NewEnquireLinkRespSeq seq)) = EnquireLinkRespID
   \<and> Seq (Header (NewEnquireLinkRespSeq seq)) = seq"
  by (simp add: Header_def NewDeliverSMRespSeq_def newDeliverSMResp_def
      NewEnquireLinkRespSeq_def newEnquireLinkResp_def init_def)

text \<open>
  C9. The GenericNACK, Unbind, EnquireLink and EnquireLinkResp PDUs are built with an
  empty list of mandatory fields (a header-only body), whatever the header; so the
  field list of each constructed PDU is empty and its field map holds no field.
\<close>

theorem header_only_pdus:
  "FieldList (newGenericNACK hdr) = [] \<and> Fields (newGenericNACK hdr) = Map.empty
   \<and> FieldList (newUnbind hdr) = [] \<and> Fields (newUnbind hdr) = Map.empty
   \<and> FieldList (newEnquireLink hdr) = [] \<and> Fields (newEnquireLink hdr) = Map.empty
   \<and> FieldList (newEnquireLinkResp hdr) = []
   \<and> Fields (newEnquireLinkResp hdr) = Map.empty
   \<and> FieldList NewGenericNACK = [] \<and> Fields NewGenericNACK = Map.empty
   \<and> FieldList NewUnbind = [] \<and> Fields NewUnbind = Map.empty
   \<and> FieldList NewEnquireLink = [] \<and> Fields NewEnquireLink = Map.empty
   \<and> FieldList NewEnquireLinkResp = [] \<and> Fields NewEnquireLinkResp = Map.empty
   \<and> FieldList (NewEnquireLinkRespSeq seq) = []
   \<and> Fields (NewEnquireLinkRespSeq seq) = Map.empty"
  by (simp add: FieldList_def Fields_def newGenericNACK_def newUnbind_def
      newEnquireLink_def newEnquireLinkResp_def NewGenericNACK_def NewUnbind_def
      NewEnquireLink_def NewEnquireLinkResp_def NewEnquireLinkRespSeq_def init_def)

section \<open>The data coding of the ISO-8859-1 codec\<close>

text \<open>
  C1, as the spec states it: \<^verbatim>\<open>ISO88591(s).Type()\<close> is \<open>0x03\<close> for every byte
  string. It is not: for the three bytes of "Ol" followed by 0xE1 the codec reports
  \<^verbatim>\<open>DefaultType\<close>, which is \<open>0x00\<close>.
\<close>

theorem ISO88591_Type_is_not_0x03:
  "ISO88591_Type [0x4F, 0x6C, 0xE1] \<noteq> 0x03"
  by (simp add: ISO88591_Type_def DefaultType_def)

text \<open>
  C1, amended: for every byte string \<open>s\<close>, \<^verbatim>\<open>ISO88591(s).Type()\<close> is
  \<^verbatim>\<open>DefaultType\<close>, the data coding \<open>0x00\<close>, which is the value
  \<^verbatim>\<open>iso88591TypeCode\<close> that the codec's test expects.
\<close>

theorem ISO88591_Type_is_default:
  "ISO88591_Type s = DefaultType \<and> ISO88591_Type s = 0x00
   \<and> ISO88591_Type s = iso88591TypeCode"
  by (simp add: ISO88591_Type_def DefaultType_def iso88591TypeCode_def)

section \<open>Encoding and decoding ISO-8859-1\<close>

lemma ISO88591_Decode_eq:
  "ISO88591_Decode ISO8859_1 b = fst (charmapDecoder_Transform b)"
proof -
  obtain d n e where dec: "charmapDecoder_Transform b = (d, n, e)"
    by (cases "charmapDecoder_Transform b") auto
  with decoder_result [of b] have "e = None" by simp
  with dec show ?thesis
    by (simp add: ISO88591_Decode_def ISO8859_1_def transform_Bytes_def)
qed

lemma ISO88591_Encode_Decode: "ISO88591_Encode ISO8859_1 (ISO88591_Decode ISO8859_1 b) = b"
  unfolding ISO88591_Decode_eq
  by (simp add: ISO88591_Encode_def ISO8859_1_def transform_Bytes_def encoder_decoder)

text \<open>
  C4. The ISO-8859-1 codec is a 1:1 mapping. For every byte string \<open>b\<close>, encoding the
  decoding of \<open>b\<close> gives \<open>b\<close> back; and for every UTF-8 string whose code points
  \<open>rs\<close> all lie in U+0000..U+00FF, decoding the encoding of the string gives the UTF-8
  bytes of the string back.
\<close>

theorem ISO88591_round_trip:
  "ISO88591_Encode ISO8859_1 (ISO88591_Decode ISO8859_1 b) = b
   \<and> ((\<forall>r \<in> set rs. r \<le> 0xFF) \<longrightarrow>
        ISO88591_Decode ISO8859_1 (ISO88591_Encode ISO8859_1 (utf8_bytes rs)) = utf8_bytes rs)"
proof (intro conjI impI)
  show "ISO88591_Encode ISO8859_1 (ISO88591_Decode ISO8859_1 b) = b"
    by (rule ISO88591_Encode_Decode)
next
  assume latin1: "\<forall>r \<in> set rs. r \<le> 0xFF"
  define bs :: "byte list" where "bs = map ucast rs"
  have "map ucast bs = rs"
  proof -
    have "(ucast (ucast r :: byte) :: rune) = r" if "r \<in> set rs" for r
    proof -
      have "r < 0x100"
        using latin1 that by (auto simp: word_le_nat_alt word_less_nat_alt)
      then show ?thesis by (rule ucast_rune_byte)
    qed
    then show ?thesis by (simp add: bs_def map_idI)
  qed
  then have "utf8_bytes rs = ISO88591_Decode ISO8859_1 bs"
    using utf8_latin1 [of bs] by (simp add: ISO88591_Decode_eq)
  then show "ISO88591_Decode ISO8859_1 (ISO88591_Encode ISO8859_1 (utf8_bytes rs))
      = utf8_bytes rs"
    by (simp add: ISO88591_Encode_Decode)
qed

text \<open>
  The round trip on a text with an accented letter, "Ol" followed by a-acute: its
  ISO-8859-1 bytes are \<open>4F 6C E1\<close>, its UTF-8 bytes \<open>4F 6C C3 A1\<close>.
\<close>

theorem ISO88591_round_trip_witness:
  "ISO88591_Encode ISO8859_1 (ISO88591_Decode ISO8859_1 [0x4F, 0x6C, 0xE1]) = [0x4F, 0x6C, 0xE1]
   \<and> utf8_bytes [0x4F, 0x6C, 0xE1] = [0x4F, 0x6C, 0xC3, 0xA1]
   \<and> ISO88591_Decode ISO8859_1 (ISO88591_Encode ISO8859_1 [0x4F, 0x6C, 0xC3, 0xA1])
       = [0x4F, 0x6C, 0xC3, 0xA1]"
proof -
  have latin1: "\<forall>r \<in> set [0x4F, 0x6C, 0xE1 :: rune]. r \<le> 0xFF" by simp
  have utf8: "utf8_bytes [0x4F, 0x6C, 0xE1] = [0x4F, 0x6C, 0xC3, 0xA1]" by code_simp
  show ?thesis
    using ISO88591_round_trip [of "[0x4F, 0x6C, 0xE1]" "[0x4F, 0x6C, 0xE1]"] latin1 utf8
    by simp
qed

text \<open>
  C8. \<^verbatim>\<open>ISO88591.Encode\<close> has one well-defined result on every input. Either the
  input is the UTF-8 encoding of a text \<open>b\<close> of ISO-8859-1 characters, and the result
  is \<open>b\<close>; or it is not (it holds a character outside the alphabet, or malformed
  UTF-8), and the result is the input itself, unchanged.
\<close>

theorem ISO88591_Encode_total:
  "(\<exists>b. s = utf8_bytes (map ucast (b :: byte list)) \<and> ISO88591_Encode ISO8859_1 s = b)
   \<or> ((\<forall>b. s \<noteq> utf8_bytes (map ucast (b :: byte list))) \<and> ISO88591_Encode ISO8859_1 s = s)"
proof (cases "\<exists>b. s = utf8_bytes (map ucast (b :: byte list))")
  case True
  then obtain b :: "byte list" where "s = utf8_bytes (map ucast b)" by blast
  then have "s = ISO88591_Decode ISO8859_1 b"
    by (simp add: utf8_latin1 ISO88591_Decode_eq)
  then show ?thesis
    using True ISO88591_Encode_Decode [of b] utf8_latin1 ISO88591_Decode_eq by metis
next
  case False
  obtain d n e where enc: "charmapEncoder_Transform s = (d, n, e)"
    by (cases "charmapEncoder_Transform s") auto
  have "e \<noteq> None"
  proof
    assume "e = None"
    with enc encoder_ok [of s d n] have "fst (charmapDecoder_Transform d) = s" by simp
    then have "s = utf8_bytes (map ucast d)" by (simp add: utf8_latin1)
    with False show False by blast
  qed
  then have "ISO88591_Encode ISO8859_1 s = s"
    using enc by (simp add: ISO88591_Encode_def ISO8859_1_def transform_Bytes_def)
  with False show ?thesis by blast
qed

text \<open>
  The euro sign, \<open>E2 82 AC\<close> in UTF-8, is outside the alphabet: its bytes are the
  UTF-8 encoding of no ISO-8859-1 text, and \<^verbatim>\<open>Encode\<close> returns them as they are.
\<close>

theorem ISO88591_Encode_total_witness:
  "(\<forall>b :: byte list. [0xE2, 0x82, 0xAC] \<noteq> utf8_bytes (map ucast b))
   \<and> ISO88591_Encode ISO8859_1 [0xE2, 0x82, 0xAC] = [0xE2, 0x82, 0xAC]"
proof -
  have enc: "ISO88591_Encode ISO8859_1 [0xE2, 0x82, 0xAC] = [0xE2, 0x82, 0xAC]"
    by code_simp
  have utf8: "utf8_bytes (map ucast [0xE2, 0x82, 0xAC :: byte])
      = [0xC3, 0xA2, 0xC2, 0x82, 0xC2, 0xAC]"
    by code_simp
  from ISO88591_Encode_total [of "[0xE2, 0x82, 0xAC]"] show ?thesis
  proof
    assume "\<exists>b :: byte list. [0xE2, 0x82, 0xAC] = utf8_bytes (map ucast b)
        \<and> ISO88591_Encode ISO8859_1 [0xE2, 0x82, 0xAC] = b"
    then obtain b :: "byte list"
      where b: "[0xE2, 0x82, 0xAC] = utf8_bytes (map ucast b)"
        "ISO88591_Encode ISO8859_1 [0xE2, 0x82, 0xAC] = b"
      by blast
    from b(2) enc have beq: "b = [0xE2, 0x82, 0xAC]" by simp
    have "[0xE2, 0x82, 0xAC] = utf8_bytes (map ucast [0xE2, 0x82, 0xAC :: byte])"
      using b(1) unfolding beq .
    then have "[0xE2, 0x82, 0xAC] = [0xC3, 0xA2, 0xC2, 0x82, 0xC2, 0xAC :: byte]"
      unfolding utf8 .
    then show ?thesis by simp
  next
    assume "(\<forall>b :: byte list. [0xE2, 0x82, 0xAC] \<noteq> utf8_bytes (map ucast b))
        \<and> ISO88591_Encode ISO8859_1 [0xE2, 0x82, 0xAC] = [0xE2, 0x82, 0xAC]"
    then show ?thesis .
  qed
qed

text \<open>
  C10. Whatever transformers the character map hands out: if the transform reports an
  error, \<^verbatim>\<open>Encode\<close> and \<^verbatim>\<open>Decode\<close> return their input unchanged, not the bytes
  transformed so far; if it reports none, they return the transformed bytes. So the
  output is always one of the two. With the transformers of ISO 8859-1, a transform
  without error has consumed the whole input.
\<close>

theorem ISO88591_error_returns_input:
  "(case transform_Bytes (NewEncoder cm) s of
      (es, n, err) \<Rightarrow>
        if err \<noteq> None then ISO88591_Encode cm s = s else ISO88591_Encode cm s = es)
   \<and> (case transform_Bytes (NewDecoder cm) s of
      (es, n, err) \<Rightarrow>
        if err \<noteq> None then ISO88591_Decode cm s = s else ISO88591_Decode cm s = es)
   \<and> (case transform_Bytes (NewEncoder ISO8859_1) s of
      (es, n, err) \<Rightarrow> if err \<noteq> None then True else n = length s)
   \<and> (case transform_Bytes (NewDecoder ISO8859_1) s of
      (es, n, err) \<Rightarrow> if err \<noteq> None then True else n = length s)"
proof (intro conjI)
  show "case transform_Bytes (NewEncoder cm) s of
      (es, n, err) \<Rightarrow>
        if err \<noteq> None then ISO88591_Encode cm s = s else ISO88591_Encode cm s = es"
    by (simp add: ISO88591_Encode_def split: prod.splits)
  show "case transform_Bytes (NewDecoder cm) s of
      (es, n, err) \<Rightarrow>
        if err \<noteq> None then ISO88591_Decode cm s = s else ISO88591_Decode cm s = es"
    by (simp add: ISO88591_Decode_def split: prod.splits)
  show "case transform_Bytes (NewEncoder ISO8859_1) s of
      (es, n, err) \<Rightarrow> if err \<noteq> None then True else n = length s"
    using encoder_ok [of s]
    by (auto simp: ISO8859_1_def transform_Bytes_def split: prod.splits)
  show "case transform_Bytes (NewDecoder ISO8859_1) s of
      (es, n, err) \<Rightarrow> if err \<noteq> None then True else n = length s"
    using decoder_result [of s]
    by (auto simp: ISO8859_1_def transform_Bytes_def split: prod.splits)
qed

text \<open>
  On "a" followed by the euro sign the encoder has written one byte when it reports its
  error, and \<^verbatim>\<open>Encode\<close> returns the four input bytes. A character map whose decoder
  is that same transformer makes \<^verbatim>\<open>Decode\<close> return its input as well.
\<close>

theorem ISO88591_error_returns_input_witness:
  "transform_Bytes (NewEncoder ISO8859_1) [0x61, 0xE2, 0x82, 0xAC]
     = ([0x61], 1, Some (RepertoireError 0x1A))
   \<and> ISO88591_Encode ISO8859_1 [0x61, 0xE2, 0x82, 0xAC] = [0x61, 0xE2, 0x82, 0xAC]
   \<and> ISO88591_Decode
       \<lparr>NewEncoder = charmapEncoder_Transform, NewDecoder = charmapEncoder_Transform\<rparr>
       [0x61, 0xE2, 0x82, 0xAC] = [0x61, 0xE2, 0x82, 0xAC]"
proof -
  have enc: "charmapEncoder_Transform [0x61, 0xE2, 0x82, 0xAC]
      = ([0x61], 1, Some (RepertoireError 0x1A))"
    by code_simp
  show ?thesis
    using ISO88591_error_returns_input [of ISO8859_1 "[0x61, 0xE2, 0x82, 0xAC]"]
      ISO88591_error_returns_input
        [of "\<lparr>NewEncoder = charmapEncoder_Transform, NewDecoder = charmapEncoder_Transform\<rparr>"
          "[0x61, 0xE2, 0x82, 0xAC]"]
      enc
    by (simp add: ISO8859_1_def transform_Bytes_def)
qed

end
